theory Spec2Isabelle
  imports Complex_Main
begin

text \<open>
  A shallow embedding of \<open>src/MyApp.tsx\<close>, the DisplayPort bandwidth checker: the timing
  generator \<open>calculateCvtTiming\<close>, the clock and rate formulas, the aggregate report that
  \<open>App\<close> computes from its state, the handlers \<open>exportJson\<close> and \<open>onImport\<close>, and the
  handlers that add, remove and update rows. The functions come first, the theorems about
  them after.
\<close>

section \<open>Numbers of the source language\<close>

text \<open>
  Every number of the program is a JavaScript \<open>number\<close>. The embedding keeps the three
  special values \<open>NaN\<close>, \<open>Infinity\<close> and \<open>-Infinity\<close> as values of their own and takes a
  finite number as a rational with exact arithmetic. What is outside the model: the
  rounding of a result to the nearest double, overflow of a finite result to an infinity,
  and the sign of zero (every zero is \<open>+0\<close>, so a division of a non-zero number by zero
  takes its sign from the numerator alone). A literal of the source, such as \<open>1e-9\<close> or
  \<open>1.8\<close>, is taken at its decimal value.
\<close>

datatype jsnum = NaN | PInf | NInf | Fin rat

fun jneg :: "jsnum \<Rightarrow> jsnum" where
  "jneg NaN = NaN"
| "jneg PInf = NInf"
| "jneg NInf = PInf"
| "jneg (Fin a) = Fin (- a)"

fun jadd :: "jsnum \<Rightarrow> jsnum \<Rightarrow> jsnum" where
  "jadd (Fin a) (Fin b) = Fin (a + b)"
| "jadd NaN y = NaN"
| "jadd x NaN = NaN"
| "jadd PInf NInf = NaN"
| "jadd NInf PInf = NaN"
| "jadd PInf y = PInf"
| "jadd NInf y = NInf"
| "jadd (Fin a) y = y"

definition jsub :: "jsnum \<Rightarrow> jsnum \<Rightarrow> jsnum" where
  "jsub x y = jadd x (jneg y)"

fun jmul :: "jsnum \<Rightarrow> jsnum \<Rightarrow> jsnum" where
  "jmul (Fin a) (Fin b) = Fin (a * b)"
| "jmul NaN y = NaN"
| "jmul x NaN = NaN"
| "jmul PInf (Fin b) = (if b = 0 then NaN else if 0 < b then PInf else NInf)"
| "jmul NInf (Fin b) = (if b = 0 then NaN else if 0 < b then NInf else PInf)"
| "jmul (Fin a) PInf = (if a = 0 then NaN else if 0 < a then PInf else NInf)"
| "jmul (Fin a) NInf = (if a = 0 then NaN else if 0 < a then NInf else PInf)"
| "jmul PInf PInf = PInf"
| "jmul PInf NInf = NInf"
| "jmul NInf PInf = NInf"
| "jmul NInf NInf = PInf"

fun jdiv :: "jsnum \<Rightarrow> jsnum \<Rightarrow> jsnum" where
  "jdiv (Fin a) (Fin b) =
     (if b = 0 then (if a = 0 then NaN else if 0 < a then PInf else NInf)
      else Fin (a / b))"
| "jdiv NaN y = NaN"
| "jdiv x NaN = NaN"
| "jdiv (Fin a) y = Fin 0"
| "jdiv PInf (Fin b) = (if 0 \<le> b then PInf else NInf)"
| "jdiv NInf (Fin b) = (if 0 \<le> b then NInf else PInf)"
| "jdiv x y = NaN"

text \<open>\<open>Math.floor\<close> and \<open>Math.round\<close> (a tie goes up) keep the special values.\<close>

fun jfloor :: "jsnum \<Rightarrow> jsnum" where
  "jfloor (Fin a) = Fin (of_int \<lfloor>a\<rfloor>)"
| "jfloor x = x"

fun jround :: "jsnum \<Rightarrow> jsnum" where
  "jround (Fin a) = Fin (of_int \<lfloor>a + 1 / 2\<rfloor>)"
| "jround x = x"

text \<open>Comparisons: every comparison with \<open>NaN\<close> is false, also \<open>NaN === NaN\<close>.\<close>

fun jlt :: "jsnum \<Rightarrow> jsnum \<Rightarrow> bool" where
  "jlt (Fin a) (Fin b) = (a < b)"
| "jlt NaN y = False"
| "jlt x NaN = False"
| "jlt NInf NInf = False"
| "jlt NInf y = True"
| "jlt x PInf = (x \<noteq> PInf)"
| "jlt x y = False"

fun jeq :: "jsnum \<Rightarrow> jsnum \<Rightarrow> bool" where
  "jeq NaN y = False"
| "jeq x NaN = False"
| "jeq x y = (x = y)"

definition jle :: "jsnum \<Rightarrow> jsnum \<Rightarrow> bool" where
  "jle x y = (jlt x y \<or> jeq x y)"

definition jgt :: "jsnum \<Rightarrow> jsnum \<Rightarrow> bool" where
  "jgt x y = jlt y x"

fun isFinite :: "jsnum \<Rightarrow> bool" where
  "isFinite (Fin a) = True"
| "isFinite x = False"

text \<open>A number is falsy when it is zero or \<open>NaN\<close>; \<open>a || b\<close> on numbers.\<close>

fun truthy_num :: "jsnum \<Rightarrow> bool" where
  "truthy_num NaN = False"
| "truthy_num (Fin a) = (a \<noteq> 0)"
| "truthy_num x = True"

definition jor :: "jsnum \<Rightarrow> jsnum \<Rightarrow> jsnum" where
  "jor a b = (if truthy_num a then a else b)"

definition jmax :: "jsnum \<Rightarrow> jsnum \<Rightarrow> jsnum" where
  \<comment> \<open>\<open>Math.max\<close>: \<open>NaN\<close> when an argument is\<close>
  "jmax x y = (if x = NaN \<or> y = NaN then NaN else if jlt x y then y else x)"

definition jmin :: "jsnum \<Rightarrow> jsnum \<Rightarrow> jsnum" where
  "jmin x y = (if x = NaN \<or> y = NaN then NaN else if jlt y x then y else x)"

section \<open>The timing generator\<close>

datatype CvtProfile = cvt | cvt_rb | cvt_rb2

definition CVT_CELL_GRAN :: jsnum where "CVT_CELL_GRAN = Fin 8"
definition CVT_HSYNC_PERCENT :: jsnum where "CVT_HSYNC_PERCENT = Fin (8 / 100)"
definition CVT_MIN_V_PORCH :: jsnum where "CVT_MIN_V_PORCH = Fin 3"
definition CVT_MIN_VSYNC_BP :: jsnum where "CVT_MIN_VSYNC_BP = Fin 550"
definition CVT_MIN_V_BPORCH :: jsnum where "CVT_MIN_V_BPORCH = Fin 6"
definition CVT_MARGIN_PERCENT :: jsnum where "CVT_MARGIN_PERCENT = Fin (18 / 10)"
definition CVT_C_PRIME :: jsnum where "CVT_C_PRIME = Fin 30"
definition CVT_M_PRIME :: jsnum where "CVT_M_PRIME = Fin 300"

record ClockParams =
  clockStep :: jsnum
  clockStepInv :: jsnum
  rbHBlank :: jsnum
  rbHSync :: jsnum
  rbMinVBlank :: jsnum
  rbVFrontPorch :: jsnum
  refreshMultiplier :: jsnum

record CvtTimingResult =
  pixelClockMHz :: jsnum
  hTotal :: jsnum
  vTotal :: jsnum
  hBlank :: jsnum
  vBlank :: jsnum
  hFront :: jsnum
  hSync :: jsnum
  hBack :: jsnum
  vFront :: jsnum
  vSync :: jsnum
  vBack :: jsnum

definition clockParams :: "CvtProfile \<Rightarrow> bool \<Rightarrow> ClockParams" where
  "clockParams reducedBlanking videoOptimized =
     (case reducedBlanking of
        cvt \<Rightarrow> \<lparr>clockStep = Fin (1 / 4), clockStepInv = Fin 4, rbHBlank = Fin 160,
                rbHSync = Fin 32, rbMinVBlank = Fin 460, rbVFrontPorch = Fin 3,
                refreshMultiplier = Fin 1\<rparr>
      | cvt_rb \<Rightarrow> \<lparr>clockStep = Fin (1 / 4), clockStepInv = Fin 4, rbHBlank = Fin 160,
                rbHSync = Fin 32, rbMinVBlank = Fin 460, rbVFrontPorch = Fin 3,
                refreshMultiplier = Fin 1\<rparr>
      | cvt_rb2 \<Rightarrow> \<lparr>clockStep = Fin (1 / 1000), clockStepInv = Fin 1000, rbHBlank = Fin 80,
                rbHSync = Fin 32, rbMinVBlank = Fin 460, rbVFrontPorch = Fin 1,
                refreshMultiplier =
                  (if videoOptimized then jdiv (Fin 1000) (Fin 1001) else Fin 1)\<rparr>)"

definition aspectCandidates :: "(string \<times> jsnum) list" where
  "aspectCandidates =
     [(''4:3'', jdiv (Fin 4) (Fin 3)),
      (''16:9'', jdiv (Fin 16) (Fin 9)),
      (''16:10'', jdiv (Fin 16) (Fin 10)),
      (''5:4'', jdiv (Fin 5) (Fin 4)),
      (''15:9'', jdiv (Fin 15) (Fin 9)),
      (''43:18'', jdiv (Fin 43) (Fin 18)),
      (''64:27'', jdiv (Fin 64) (Fin 27)),
      (''12:5'', jdiv (Fin 12) (Fin 5))]"

definition cellGran :: jsnum where
  "cellGran = jfloor CVT_CELL_GRAN"

definition aspectRatio :: "jsnum \<Rightarrow> jsnum \<Rightarrow> string" where
  \<comment> \<open>\<open>aspectCandidates.find(...)?.[0] ?? "Unknown"\<close>\<close>
  "aspectRatio verPixels hPixelsRounded' =
     (case find (\<lambda>(_, ratio).
              jeq (jmul cellGran (jround (jdiv (jmul verPixels ratio) cellGran))) hPixelsRounded')
            aspectCandidates of
        Some (name, _) \<Rightarrow> name
      | None \<Rightarrow> ''Unknown'')"

definition vSyncRounded :: "CvtProfile \<Rightarrow> string \<Rightarrow> jsnum" where
  "vSyncRounded reducedBlanking aspect =
     (if reducedBlanking = cvt_rb2 then Fin 8
      else if aspect = ''4:3'' then Fin 4
      else if aspect = ''16:9'' then Fin 5
      else if aspect = ''16:10'' then Fin 6
      else if aspect = ''5:4'' then Fin 7
      else if aspect = ''15:9'' then Fin 7
      else Fin 10)"

text \<open>
  The body of \<open>calculateCvtTiming\<close>. Each formula of the source that later values depend
  on is a definition of its own, named after the source's local constant and taking the
  values it reads; \<open>calculateCvtTiming\<close> below binds them in the source's order.
\<close>

definition hPixelsRounded :: "jsnum \<Rightarrow> jsnum" where
  "hPixelsRounded hActive = jmul (jfloor (jdiv hActive cellGran)) cellGran"

definition leftMargin :: "bool \<Rightarrow> jsnum \<Rightarrow> jsnum" where
  "leftMargin margins hPixelsRounded' =
     (if margins
      then jmul (jfloor (jdiv (jdiv (jmul hPixelsRounded' CVT_MARGIN_PERCENT) (Fin 100)) cellGran))
             cellGran
      else Fin 0)"

definition vLinesRounded :: "bool \<Rightarrow> jsnum \<Rightarrow> jsnum" where
  "vLinesRounded interlaced vActive =
     (if interlaced then jfloor (jdiv vActive (Fin 2)) else jfloor vActive)"

definition topMargin :: "bool \<Rightarrow> jsnum \<Rightarrow> jsnum" where
  "topMargin margins vLinesRounded' =
     (if margins then jfloor (jdiv (jmul vLinesRounded' CVT_MARGIN_PERCENT) (Fin 100))
      else Fin 0)"

text \<open>The branch \<open>reducedBlanking === "cvt"\<close>.\<close>

definition cvt_hPeriodEst :: "jsnum \<Rightarrow> jsnum \<Rightarrow> jsnum \<Rightarrow> jsnum \<Rightarrow> jsnum" where
  "cvt_hPeriodEst fieldRateRequired vLinesRounded' topMargin' interlaceFactor =
     jmul (jdiv (jsub (jdiv (Fin 1) fieldRateRequired) (jdiv CVT_MIN_VSYNC_BP (Fin 1000000)))
                (jadd (jadd (jadd vLinesRounded' (jmul (Fin 2) topMargin')) CVT_MIN_V_PORCH)
                      interlaceFactor))
          (Fin 1000000)"

definition cvt_vSyncBackPorch :: "jsnum \<Rightarrow> jsnum \<Rightarrow> jsnum" where
  "cvt_vSyncBackPorch vSyncRounded' hPeriodEst =
     (let vSyncBackPorch = jadd (jfloor (jdiv CVT_MIN_VSYNC_BP hPeriodEst)) (Fin 1)
      in if jlt vSyncBackPorch (jadd vSyncRounded' CVT_MIN_V_BPORCH)
         then jadd vSyncRounded' CVT_MIN_V_BPORCH
         else vSyncBackPorch)"

definition idealDutyCycle :: "jsnum \<Rightarrow> jsnum" where
  "idealDutyCycle hPeriodEst = jsub CVT_C_PRIME (jdiv (jmul CVT_M_PRIME hPeriodEst) (Fin 1000))"

definition cvt_hBlank :: "jsnum \<Rightarrow> jsnum \<Rightarrow> jsnum" where
  "cvt_hBlank totalActivePixels hPeriodEst =
     (let minDutyCycle = Fin 20
      in if jlt (idealDutyCycle hPeriodEst) minDutyCycle
         then jmul (jfloor (jdiv (jdiv (jmul totalActivePixels minDutyCycle)
                                       (jsub (Fin 100) minDutyCycle))
                                 (jmul (Fin 2) cellGran)))
                   (jmul (Fin 2) cellGran)
         else jmul (jfloor (jdiv (jdiv (jmul totalActivePixels (idealDutyCycle hPeriodEst))
                                       (jsub (Fin 100) (idealDutyCycle hPeriodEst)))
                                 (jmul (Fin 2) cellGran)))
                   (jmul (Fin 2) cellGran))"

definition cvt_hSync :: "jsnum \<Rightarrow> jsnum" where
  "cvt_hSync totalPixels =
     jmul (jfloor (jdiv (jmul CVT_HSYNC_PERCENT totalPixels) cellGran)) cellGran"

definition cvt_pixelClockMHz :: "ClockParams \<Rightarrow> jsnum \<Rightarrow> jsnum \<Rightarrow> jsnum" where
  "cvt_pixelClockMHz cp totalPixels hPeriodEst =
     jmul (clockStep cp) (jfloor (jdiv (jdiv totalPixels hPeriodEst) (clockStep cp)))"

text \<open>The \<open>else\<close> branch: the two reduced-blanking profiles.\<close>

definition rb_hPeriodEst :: "ClockParams \<Rightarrow> jsnum \<Rightarrow> jsnum \<Rightarrow> jsnum \<Rightarrow> jsnum \<Rightarrow> jsnum" where
  "rb_hPeriodEst cp fieldRateRequired vLinesRounded' topMargin' bottomMargin =
     jdiv (jsub (jdiv (Fin 1000000) fieldRateRequired) (rbMinVBlank cp))
          (jadd (jadd vLinesRounded' topMargin') bottomMargin)"

definition activeVbiLines :: "ClockParams \<Rightarrow> jsnum \<Rightarrow> jsnum \<Rightarrow> jsnum" where
  "activeVbiLines cp vSyncRounded' hPeriodEst =
     (let vbiLines = jadd (jfloor (jdiv (rbMinVBlank cp) hPeriodEst)) (Fin 1);
          rbMinVbi = jadd (jadd (rbVFrontPorch cp) vSyncRounded') CVT_MIN_V_BPORCH
      in if jlt vbiLines rbMinVbi then rbMinVbi else vbiLines)"

definition rb_pixelClockMHz :: "ClockParams \<Rightarrow> jsnum \<Rightarrow> jsnum \<Rightarrow> jsnum \<Rightarrow> jsnum" where
  "rb_pixelClockMHz cp fieldRateRequired totalVLines totalPixels =
     jdiv (jmul (jfloor (jdiv (jmul (jmul (jmul fieldRateRequired totalVLines) totalPixels)
                                    (clockStepInv cp))
                              (Fin 1000000)))
                (refreshMultiplier cp))
          (clockStepInv cp)"

definition calculateCvtTiming ::
  "jsnum \<Rightarrow> jsnum \<Rightarrow> jsnum \<Rightarrow> CvtProfile \<Rightarrow> bool \<Rightarrow> bool \<Rightarrow> bool \<Rightarrow> CvtTimingResult" where
  "calculateCvtTiming hActive vActive refreshHz reducedBlanking margins interlaced videoOptimized =
    (let cp = clockParams reducedBlanking videoOptimized;
         fieldRateRequired = (if interlaced then jmul refreshHz (Fin 2) else refreshHz);
         hPixelsRounded' = hPixelsRounded hActive;
         leftMargin' = leftMargin margins hPixelsRounded';
         totalActivePixels = jadd hPixelsRounded' (jmul leftMargin' (Fin 2));
         vLinesRounded' = vLinesRounded interlaced vActive;
         topMargin' = topMargin margins vLinesRounded';
         bottomMargin = topMargin';
         interlaceFactor = (if interlaced then Fin (1 / 2) else Fin 0);
         verPixels = (if interlaced then jmul (Fin 2) vLinesRounded' else vLinesRounded');
         vSyncRounded' = vSyncRounded reducedBlanking (aspectRatio verPixels hPixelsRounded')
     in
     if reducedBlanking = cvt then
       (let hPeriodEst = cvt_hPeriodEst fieldRateRequired vLinesRounded' topMargin' interlaceFactor;
            vSyncBackPorch = cvt_vSyncBackPorch vSyncRounded' hPeriodEst;
            vBlank' = jadd vSyncBackPorch CVT_MIN_V_PORCH;
            vFrontPorch = CVT_MIN_V_PORCH;
            vBackPorch = jsub vSyncBackPorch vSyncRounded';
            totalVLines =
              jadd (jadd (jadd (jadd (jadd vLinesRounded' topMargin') bottomMargin) vSyncBackPorch)
                         interlaceFactor)
                   CVT_MIN_V_PORCH;
            hBlank' = cvt_hBlank totalActivePixels hPeriodEst;
            totalPixels = jadd totalActivePixels hBlank';
            hSync' = cvt_hSync totalPixels;
            hBackPorch = jdiv hBlank' (Fin 2);
            hFrontPorch = jsub (jsub hBlank' hSync') hBackPorch;
            pixelClock = cvt_pixelClockMHz cp totalPixels hPeriodEst
        in \<lparr>pixelClockMHz = pixelClock,
            hTotal = jround totalPixels, vTotal = jround totalVLines,
            hBlank = jround hBlank', vBlank = jround vBlank',
            hFront = jround hFrontPorch, hSync = jround hSync', hBack = jround hBackPorch,
            vFront = jround vFrontPorch, vSync = jround vSyncRounded',
            vBack = jround vBackPorch\<rparr>)
     else
       (let hPeriodEst = rb_hPeriodEst cp fieldRateRequired vLinesRounded' topMargin' bottomMargin;
            hBlank' = rbHBlank cp;
            activeVbiLines' = activeVbiLines cp vSyncRounded' hPeriodEst;
            vBlank' = activeVbiLines';
            totalVLines =
              jadd (jadd (jadd (jadd activeVbiLines' vLinesRounded') topMargin') bottomMargin)
                   interlaceFactor;
            totalPixels = jadd totalActivePixels (rbHBlank cp);
            pixelClock = rb_pixelClockMHz cp fieldRateRequired totalVLines totalPixels;
            vFrontPorch =
              (if reducedBlanking = cvt_rb2 then jsub (jsub activeVbiLines' vSyncRounded') (Fin 6)
               else Fin 3);
            vBackPorch =
              (if reducedBlanking = cvt_rb2 then Fin 6
               else jsub (jsub activeVbiLines' vFrontPorch) vSyncRounded');
            hSync' = rbHSync cp;
            hBackPorch = (if reducedBlanking = cvt_rb2 then Fin 40 else Fin 80);
            hFrontPorch = jsub (jsub hBlank' hSync') hBackPorch
        in \<lparr>pixelClockMHz = pixelClock,
            hTotal = jround totalPixels, vTotal = jround totalVLines,
            hBlank = jround hBlank', vBlank = jround vBlank',
            hFront = jround hFrontPorch, hSync = jround hSync', hBack = jround hBackPorch,
            vFront = jround vFrontPorch, vSync = jround vSyncRounded',
            vBack = jround vBackPorch\<rparr>))"

section \<open>Values, strings and coercions of the source language\<close>

text \<open>
  A value read from an import file, as \<open>JSON.parse\<close> returns it. An object is the list of
  its properties with the duplicates of the text already resolved. A property read
  \<open>x.k\<close> gives \<open>undefined\<close>, here \<open>None\<close>, when \<open>x\<close> has no such property; none of the
  names the program reads is a property of a number, a string, a boolean or an array.
  Reading a property of \<open>null\<close> throws, which the callers below write out.
  Characters are the code units below 256.
\<close>

datatype json =
    JNull
  | JBool bool
  | JNum jsnum
  | JStr string
  | JArr "json list"
  | JObj "(string \<times> json) list"

fun getProp :: "json \<Rightarrow> string \<Rightarrow> json option" where
  "getProp (JObj kvs) k = map_of kvs k"
| "getProp x k = None"

fun truthy :: "json \<Rightarrow> bool" where
  "truthy JNull = False"
| "truthy (JBool b) = b"
| "truthy (JNum x) = truthy_num x"
| "truthy (JStr s) = (s \<noteq> [])"
| "truthy (JArr xs) = True"
| "truthy (JObj kvs) = True"

subsection \<open>\<open>Number(string)\<close>\<close>

text \<open>
  The conversion of a string to a number: white space is trimmed, the empty string is 0,
  then a decimal literal with an optional sign, fraction and exponent, or \<open>Infinity\<close> with
  an optional sign, or an unsigned literal in base 16, 8 or 2; everything else is \<open>NaN\<close>.
  The value of a literal is exact.
\<close>

definition is_ws :: "char \<Rightarrow> bool" where
  "is_ws c = (of_char c \<in> {9, 10, 11, 12, 13, 32, 160 :: nat})"

definition trim :: "string \<Rightarrow> string" where
  "trim s = rev (dropWhile is_ws (rev (dropWhile is_ws s)))"

definition digit_val :: "char \<Rightarrow> nat option" where
  "digit_val c =
     (let n = of_char c :: nat
      in if 48 \<le> n \<and> n \<le> 57 then Some (n - 48)
         else if 97 \<le> n \<and> n \<le> 102 then Some (n - 87)
         else if 65 \<le> n \<and> n \<le> 70 then Some (n - 55)
         else None)"

definition is_digit :: "char \<Rightarrow> bool" where
  "is_digit c = (48 \<le> (of_char c :: nat) \<and> (of_char c :: nat) \<le> 57)"

fun radix_value :: "nat \<Rightarrow> nat \<Rightarrow> string \<Rightarrow> nat option" where
  "radix_value b acc [] = Some acc"
| "radix_value b acc (c # cs) =
     (case digit_val c of
        None \<Rightarrow> None
      | Some d \<Rightarrow> if d < b then radix_value b (acc * b + d) cs else None)"

definition radix_literal :: "nat \<Rightarrow> string \<Rightarrow> nat option" where
  "radix_literal b s = (if s = [] then None else radix_value b 0 s)"

definition exponent_part :: "string \<Rightarrow> int option" where
  "exponent_part s =
     (case s of
        [] \<Rightarrow> Some 0
      | c # r \<Rightarrow>
          if c = CHR ''e'' \<or> c = CHR ''E'' then
            (case r of
               [] \<Rightarrow> None
             | d # ds \<Rightarrow>
                 if d = CHR ''+'' then map_option int (radix_literal 10 ds)
                 else if d = CHR ''-'' then map_option (\<lambda>n. - int n) (radix_literal 10 ds)
                 else map_option int (radix_literal 10 r))
          else None)"

definition pow10 :: "int \<Rightarrow> rat" where
  "pow10 e = (if 0 \<le> e then 10 ^ nat e else 1 / 10 ^ nat (- e))"

definition unsigned_decimal :: "string \<Rightarrow> jsnum" where
  "unsigned_decimal s =
     (if s = ''Infinity'' then PInf
      else
        (let ip = takeWhile is_digit s;
             r1 = dropWhile is_digit s;
             hasdot = (case r1 of [] \<Rightarrow> False | c # _ \<Rightarrow> c = CHR ''.'');
             fp = (if hasdot then takeWhile is_digit (tl r1) else []);
             r2 = (if hasdot then dropWhile is_digit (tl r1) else r1)
         in if ip = [] \<and> fp = [] then NaN
            else
              (case (radix_literal 10 (ip @ fp), exponent_part r2) of
                 (Some m, Some e) \<Rightarrow> Fin (of_nat m * pow10 (e - int (length fp)))
               | _ \<Rightarrow> NaN)))"

definition StringToNumber :: "string \<Rightarrow> jsnum" where
  "StringToNumber s =
     (let t = trim s
      in case t of
           [] \<Rightarrow> Fin 0
         | c # r \<Rightarrow>
             if c = CHR ''+'' then unsigned_decimal r
             else if c = CHR ''-'' then jneg (unsigned_decimal r)
             else if c = CHR ''0'' \<and> r \<noteq> [] \<and> hd r \<in> {CHR ''x'', CHR ''X''}
               then (case radix_literal 16 (tl r) of Some n \<Rightarrow> Fin (of_nat n) | None \<Rightarrow> NaN)
             else if c = CHR ''0'' \<and> r \<noteq> [] \<and> hd r \<in> {CHR ''o'', CHR ''O''}
               then (case radix_literal 8 (tl r) of Some n \<Rightarrow> Fin (of_nat n) | None \<Rightarrow> NaN)
             else if c = CHR ''0'' \<and> r \<noteq> [] \<and> hd r \<in> {CHR ''b'', CHR ''B''}
               then (case radix_literal 2 (tl r) of Some n \<Rightarrow> Fin (of_nat n) | None \<Rightarrow> NaN)
             else unsigned_decimal t)"

subsection \<open>\<open>String(value)\<close> and \<open>Number(value)\<close>\<close>

text \<open>
  The decimal text of a number is the shortest one that reads back as the same double;
  it is outside the model, and \<open>String\<close> and \<open>Number\<close> take it as the parameter \<open>numstr\<close>.
  An array prints as its elements joined by commas, \<open>null\<close> elements as nothing.
\<close>

fun join_comma :: "string list \<Rightarrow> string" where
  "join_comma [] = []"
| "join_comma [x] = x"
| "join_comma (x # y # r) = x @ '','' @ join_comma (y # r)"

fun js_String :: "(jsnum \<Rightarrow> string) \<Rightarrow> json \<Rightarrow> string" where
  "js_String numstr JNull = ''null''"
| "js_String numstr (JBool b) = (if b then ''true'' else ''false'')"
| "js_String numstr (JNum x) = numstr x"
| "js_String numstr (JStr s) = s"
| "js_String numstr (JArr xs) =
     join_comma (map (\<lambda>x. if x = JNull then [] else js_String numstr x) xs)"
| "js_String numstr (JObj kvs) = ''[object Object]''"

definition js_Number :: "(jsnum \<Rightarrow> string) \<Rightarrow> json option \<Rightarrow> jsnum" where
  "js_Number numstr x =
     (case x of
        None \<Rightarrow> NaN
      | Some JNull \<Rightarrow> Fin 0
      | Some (JBool b) \<Rightarrow> (if b then Fin 1 else Fin 0)
      | Some (JNum n) \<Rightarrow> n
      | Some (JStr s) \<Rightarrow> StringToNumber s
      | Some (JArr xs) \<Rightarrow> StringToNumber (js_String numstr (JArr xs))
      | Some (JObj kvs) \<Rightarrow> StringToNumber (js_String numstr (JObj kvs)))"

text \<open>The decimal text of a natural number, for the template literals of the source.\<close>

fun show_nat :: "nat \<Rightarrow> string" where
  "show_nat n =
     (if n < 10 then [char_of (48 + n)] else show_nat (n div 10) @ [char_of (48 + n mod 10)])"

text \<open>
  A number printer for the examples: it is the language's on \<open>NaN\<close>, the infinities and
  the whole numbers below \<open>10^21\<close>, the only numbers an example below prints.
\<close>

definition wholeNumberString :: "jsnum \<Rightarrow> string" where
  "wholeNumberString x =
     (case x of
        NaN \<Rightarrow> ''NaN''
      | PInf \<Rightarrow> ''Infinity''
      | NInf \<Rightarrow> ''-Infinity''
      | Fin a \<Rightarrow> (if a < 0 then ''-'' @ show_nat (nat \<lfloor>- a\<rfloor>) else show_nat (nat \<lfloor>a\<rfloor>)))"

declare show_nat.simps [simp del]

section \<open>Tables and the per-stream row\<close>

text \<open>
  \<open>COLOR_FORMATS\<close> maps a format id to its factor (the display label is left out). The
  source tests an imported id with the \<open>in\<close> operator, which also finds the names every
  object inherits; for such a name the entry is not a format and its factor is
  \<open>undefined\<close>, which multiplies to \<open>NaN\<close>.
\<close>

definition COLOR_FORMATS :: "(string \<times> jsnum) list" where
  "COLOR_FORMATS =
     [(''rgb'', Fin 3), (''yuv444'', Fin 3), (''yuv422'', Fin 2), (''yuv420'', Fin (3 / 2))]"

definition inherited_names :: "string list" where
  "inherited_names =
     [''constructor'', ''hasOwnProperty'', ''isPrototypeOf'', ''propertyIsEnumerable'',
      ''toLocaleString'', ''toString'', ''valueOf'', ''__proto__'', ''__defineGetter__'',
      ''__defineSetter__'', ''__lookupGetter__'', ''__lookupSetter__'']"

definition in_COLOR_FORMATS :: "string \<Rightarrow> bool" where
  "in_COLOR_FORMATS s = (s \<in> set (map fst COLOR_FORMATS) \<or> s \<in> set inherited_names)"

definition DEFAULT_BPC :: jsnum where "DEFAULT_BPC = Fin 8"
definition DEFAULT_COLOR_FORMAT :: string where "DEFAULT_COLOR_FORMAT = ''rgb''"
definition LANE_OPTIONS :: "jsnum list" where "LANE_OPTIONS = [Fin 1, Fin 2, Fin 4]"

definition formatFactor :: "string \<Rightarrow> jsnum" where
  \<comment> \<open>\<open>(COLOR_FORMATS[id] ?? COLOR_FORMATS[DEFAULT_COLOR_FORMAT]).factor\<close>\<close>
  "formatFactor s =
     (case map_of COLOR_FORMATS s of
        Some f \<Rightarrow> f
      | None \<Rightarrow> if s \<in> set inherited_names then NaN else Fin 3)"

text \<open>The link presets: id, per-lane rate, coding and lane count (the label is left out).\<close>

record Preset =
  p_id :: string
  p_rate :: jsnum
  p_coding :: string
  p_lanes :: jsnum

definition DP_PRESETS :: "Preset list" where
  "DP_PRESETS =
     [\<lparr>p_id = ''custom'', p_rate = Fin (81 / 10), p_coding = ''8b10b'', p_lanes = Fin 4\<rparr>,
      \<lparr>p_id = ''dp20_uhbr20'', p_rate = Fin 20, p_coding = ''128b132b'', p_lanes = Fin 4\<rparr>,
      \<lparr>p_id = ''dp20_uhbr13_5'', p_rate = Fin (27 / 2), p_coding = ''128b132b'', p_lanes = Fin 4\<rparr>,
      \<lparr>p_id = ''dp20_uhbr10'', p_rate = Fin 10, p_coding = ''128b132b'', p_lanes = Fin 4\<rparr>,
      \<lparr>p_id = ''dp13_hbr3'', p_rate = Fin (81 / 10), p_coding = ''8b10b'', p_lanes = Fin 4\<rparr>,
      \<lparr>p_id = ''dp12_hbr2'', p_rate = Fin (27 / 5), p_coding = ''8b10b'', p_lanes = Fin 4\<rparr>,
      \<lparr>p_id = ''dp12_hbr'', p_rate = Fin (27 / 10), p_coding = ''8b10b'', p_lanes = Fin 4\<rparr>,
      \<lparr>p_id = ''dp11_rbr'', p_rate = Fin (81 / 50), p_coding = ''8b10b'', p_lanes = Fin 4\<rparr>]"

definition presetOf :: "string \<Rightarrow> Preset" where
  \<comment> \<open>\<open>DP_PRESETS.find(p => p.id === presetId) || DP_PRESETS[0]\<close>\<close>
  "presetOf pid =
     (case find (\<lambda>p. p_id p = pid) DP_PRESETS of
        Some p \<Rightarrow> p
      | None \<Rightarrow> \<lparr>p_id = ''custom'', p_rate = Fin (81 / 10), p_coding = ''8b10b'', p_lanes = Fin 4\<rparr>)"

text \<open>
  \<open>TimingRow\<close>. The fields carry the prefix \<open>t_\<close>, the names without it being those of
  the generator's result. An optional field that is unset is \<open>None\<close>. The import stores
  three fields as they come, whatever their type: the id, the generator kind and the
  compression ratio are values, not strings or numbers.
\<close>

record TimingRow =
  t_id :: json
  t_label :: string
  t_peakBw :: string
  t_peakBwDsc :: string
  t_useDsc :: bool
  t_calcOpen :: "bool option"
  t_modeIndex :: "jsnum option"
  t_cvtKind :: "json option"
  t_h :: "jsnum option"
  t_v :: "jsnum option"
  t_hz :: "jsnum option"
  t_hFront :: "jsnum option"
  t_hSync :: "jsnum option"
  t_hBack :: "jsnum option"
  t_vFront :: "jsnum option"
  t_vSync :: "jsnum option"
  t_vBack :: "jsnum option"
  t_bpp :: "jsnum option"
  t_dscRatio :: "json option"
  t_bpc :: "jsnum option"
  t_colorFormat :: "string option"
  t_pixelClock :: "jsnum option"

definition DEFAULT_PRESET_TIMING :: CvtTimingResult where
  "DEFAULT_PRESET_TIMING =
     calculateCvtTiming (Fin 3840) (Fin 2160) (Fin 144) cvt_rb2 False False False"

definition emptyTiming :: "nat \<Rightarrow> nat \<Rightarrow> TimingRow" where
  \<comment> \<open>\<open>now\<close> is the value of \<open>Date.now()\<close>\<close>
  "emptyTiming now i =
     \<lparr>t_id = JStr (show_nat now @ ''_'' @ show_nat i),
      t_label = ''Timing '' @ show_nat (i + 1),
      t_peakBw = [], t_peakBwDsc = [], t_useDsc = True,
      t_calcOpen = Some False,
      t_modeIndex = Some (Fin 0),
      t_cvtKind = Some (JStr ''cvt_rb2''),
      t_h = Some (Fin 3840), t_v = Some (Fin 2160), t_hz = Some (Fin 144),
      t_hFront = Some (hFront DEFAULT_PRESET_TIMING),
      t_hSync = Some (hSync DEFAULT_PRESET_TIMING),
      t_hBack = Some (hBack DEFAULT_PRESET_TIMING),
      t_vFront = Some (vFront DEFAULT_PRESET_TIMING),
      t_vSync = Some (vSync DEFAULT_PRESET_TIMING),
      t_vBack = Some (vBack DEFAULT_PRESET_TIMING),
      t_bpp = Some (jmul DEFAULT_BPC (formatFactor DEFAULT_COLOR_FORMAT)),
      t_dscRatio = Some (JNum (Fin 3)),
      t_bpc = Some DEFAULT_BPC,
      t_colorFormat = Some DEFAULT_COLOR_FORMAT,
      t_pixelClock = Some (pixelClockMHz DEFAULT_PRESET_TIMING)\<rparr>"

definition pixelClockMHzFromTotals ::
  "jsnum \<Rightarrow> jsnum \<Rightarrow> jsnum \<Rightarrow> jsnum \<Rightarrow> jsnum \<Rightarrow> jsnum \<Rightarrow> jsnum \<Rightarrow> jsnum \<Rightarrow> jsnum \<Rightarrow> jsnum" where
  "pixelClockMHzFromTotals h v hz hFront' hSync' hBack' vFront' vSync' vBack' =
     (let hTotal' = jadd (jadd (jadd h hFront') hSync') hBack';
          vTotal' = jadd (jadd (jadd v vFront') vSync') vBack'
      in jdiv (jmul (jmul hTotal' vTotal') hz) (Fin 1000000))"

definition streamGbpsFromClock :: "jsnum \<Rightarrow> jsnum \<Rightarrow> jsnum" where
  "streamGbpsFromClock clockMHz bpp =
     jdiv (jmul (jmul clockMHz (Fin 1000000)) bpp) (Fin 1000000000)"

definition codingEfficiency :: "string \<Rightarrow> jsnum" where
  "codingEfficiency coding' = (if coding' = ''8b10b'' then Fin (8 / 10) else jdiv (Fin 128) (Fin 132))"

definition clamp :: "jsnum \<Rightarrow> jsnum \<Rightarrow> jsnum \<Rightarrow> jsnum" where
  "clamp n lo hi = jmax lo (jmin hi n)"

definition utilColor :: "bool \<Rightarrow> jsnum \<Rightarrow> string" where
  "utilColor fits' marginPct' =
     (if \<not> fits' then ''bg-red-500''
      else if jlt marginPct' (Fin 10) then ''bg-amber-400''
      else ''bg-emerald-500'')"

section \<open>The application state and the aggregate report\<close>

record AppState =
  timings :: "TimingRow list"
  presetId :: string
  lanes :: jsnum
  rate :: jsnum
  coding :: string

definition initialState :: "nat \<Rightarrow> AppState" where
  "initialState now =
     \<lparr>timings = [emptyTiming now 0], presetId = ''dp13_hbr3'',
      lanes = p_lanes (presetOf ''dp13_hbr3''), rate = p_rate (presetOf ''dp13_hbr3''),
      coding = p_coding (presetOf ''dp13_hbr3'')\<rparr>"

definition eff :: "AppState \<Rightarrow> jsnum" where
  "eff st = codingEfficiency (coding st)"

definition rawCapacityGbps :: "AppState \<Rightarrow> jsnum" where
  "rawCapacityGbps st = jmul (rate st) (lanes st)"

definition payloadCapacityGbps :: "AppState \<Rightarrow> jsnum" where
  "payloadCapacityGbps st = jmul (rawCapacityGbps st) (eff st)"

text \<open>\<open>parsed\<close>: each row with \<open>peak = Number(t.peakBw) || 0\<close> and \<open>peakDsc\<close> likewise.\<close>

definition peak :: "TimingRow \<Rightarrow> jsnum" where
  "peak t = jor (StringToNumber (t_peakBw t)) (Fin 0)"

definition peakDsc :: "TimingRow \<Rightarrow> jsnum" where
  "peakDsc t = jor (StringToNumber (t_peakBwDsc t)) (Fin 0)"

definition selected :: "TimingRow \<Rightarrow> jsnum" where
  \<comment> \<open>\<open>t.useDsc ? t.peakDsc : t.peak\<close>\<close>
  "selected t = (if t_useDsc t then peakDsc t else peak t)"

definition totalGbps :: "AppState \<Rightarrow> jsnum" where
  \<comment> \<open>\<open>parsed.reduce((s,t) => s + (t.useDsc ? t.peakDsc : t.peak), 0)\<close>\<close>
  "totalGbps st = foldl (\<lambda>s t. jadd s (selected t)) (Fin 0) (timings st)"

definition fits :: "AppState \<Rightarrow> bool" where
  "fits st = jle (totalGbps st) (jadd (payloadCapacityGbps st) (Fin (1 / 1000000000)))"

definition margin :: "AppState \<Rightarrow> jsnum" where
  "margin st = jsub (payloadCapacityGbps st) (totalGbps st)"

definition marginPct :: "AppState \<Rightarrow> jsnum" where
  "marginPct st =
     (if jgt (payloadCapacityGbps st) (Fin 0)
      then jmul (jdiv (margin st) (payloadCapacityGbps st)) (Fin 100)
      else Fin 0)"

definition utilPct :: "AppState \<Rightarrow> jsnum" where
  "utilPct st =
     clamp (jmul (jdiv (totalGbps st) (jmax (payloadCapacityGbps st) (Fin (1 / 1000000)))) (Fin 100))
       (Fin 0) (Fin 100)"

definition barColor :: "AppState \<Rightarrow> string" where
  "barColor st = utilColor (fits st) (marginPct st)"

section \<open>Export and import\<close>

text \<open>
  \<open>exportJson\<close> builds the object that \<open>JSON.stringify\<close> writes. The model gives the value
  that \<open>JSON.parse\<close> reads back from that text: a property whose value is \<open>undefined\<close> is
  left out, and a number that is not finite is written as \<open>null\<close>. The rows are the
  \<open>parsed\<close> ones, so each carries \<open>peak\<close> and \<open>peakDsc\<close> too. The order of the keys is
  the one of an imported row; every read is by key.
\<close>

fun stringified :: "json \<Rightarrow> json" where
  "stringified (JNum x) = (if isFinite x then JNum x else JNull)"
| "stringified (JArr xs) = JArr (map stringified xs)"
| "stringified (JObj kvs) = JObj (map (\<lambda>(k, v). (k, stringified v)) kvs)"
| "stringified x = x"

definition num_entry :: "string \<Rightarrow> jsnum option \<Rightarrow> (string \<times> json) list" where
  "num_entry k x = (case x of None \<Rightarrow> [] | Some n \<Rightarrow> [(k, stringified (JNum n))])"

definition val_entry :: "string \<Rightarrow> json option \<Rightarrow> (string \<times> json) list" where
  "val_entry k x = (case x of None \<Rightarrow> [] | Some v \<Rightarrow> [(k, stringified v)])"

definition exportRow :: "TimingRow \<Rightarrow> json" where
  "exportRow t =
     JObj ([(''id'', stringified (t_id t)), (''label'', JStr (t_label t)),
            (''peakBw'', JStr (t_peakBw t)), (''peakBwDsc'', JStr (t_peakBwDsc t)),
            (''useDsc'', JBool (t_useDsc t))]
           @ val_entry ''calcOpen'' (map_option JBool (t_calcOpen t))
           @ num_entry ''modeIndex'' (t_modeIndex t)
           @ val_entry ''cvtKind'' (t_cvtKind t)
           @ num_entry ''h'' (t_h t) @ num_entry ''v'' (t_v t) @ num_entry ''hz'' (t_hz t)
           @ num_entry ''hFront'' (t_hFront t) @ num_entry ''hSync'' (t_hSync t)
           @ num_entry ''hBack'' (t_hBack t)
           @ num_entry ''vFront'' (t_vFront t) @ num_entry ''vSync'' (t_vSync t)
           @ num_entry ''vBack'' (t_vBack t)
           @ num_entry ''bpp'' (t_bpp t) @ num_entry ''bpc'' (t_bpc t)
           @ val_entry ''colorFormat'' (map_option JStr (t_colorFormat t))
           @ val_entry ''dscRatio'' (t_dscRatio t)
           @ num_entry ''pixelClock'' (t_pixelClock t)
           @ num_entry ''peak'' (Some (peak t)) @ num_entry ''peakDsc'' (Some (peakDsc t)))"

definition exportJson :: "AppState \<Rightarrow> json" where
  "exportJson st =
     JObj [(''timings'', JArr (map exportRow (timings st))),
           (''transport'',
              JObj [(''rate'', stringified (JNum (rate st))),
                    (''lanes'', stringified (JNum (lanes st))),
                    (''coding'', JStr (coding st)),
                    (''eff'', stringified (JNum (eff st)))]),
           (''presetId'', JStr (presetId st))]"

text \<open>
  One entry of the imported \<open>timings\<close> array, for an entry that is not \<open>null\<close> (a
  \<open>null\<close> entry throws, see \<open>restoreTimings\<close>). \<open>x ?? d\<close> and \<open>x || d\<close> on values:
\<close>

definition nullish_or :: "json option \<Rightarrow> json \<Rightarrow> json" where
  "nullish_or x d = (case x of None \<Rightarrow> d | Some JNull \<Rightarrow> d | Some v \<Rightarrow> v)"

definition truthy_or :: "json option \<Rightarrow> json \<Rightarrow> json" where
  "truthy_or x d = (case x of None \<Rightarrow> d | Some v \<Rightarrow> if truthy v then v else d)"

definition js_Boolean :: "json option \<Rightarrow> bool" where
  "js_Boolean x = (case x of None \<Rightarrow> False | Some v \<Rightarrow> truthy v)"

definition finite_or_unset :: "jsnum \<Rightarrow> jsnum option" where
  \<comment> \<open>\<open>Number.isFinite(x) ? x : undefined\<close>\<close>
  "finite_or_unset x = (if isFinite x then Some x else None)"

definition restoreRow :: "(jsnum \<Rightarrow> string) \<Rightarrow> nat \<Rightarrow> nat \<Rightarrow> json \<Rightarrow> TimingRow" where
  "restoreRow numstr now i t =
     (let importedFormat =
            (case getProp t ''colorFormat'' of
               Some (JStr s) \<Rightarrow> if in_COLOR_FORMATS s then s else DEFAULT_COLOR_FORMAT
             | _ \<Rightarrow> DEFAULT_COLOR_FORMAT);
          rawBpc = js_Number numstr (getProp t ''bpc'');
          bpc = (if isFinite rawBpc \<and> jgt rawBpc (Fin 0) then rawBpc else DEFAULT_BPC);
          rawBpp = js_Number numstr (getProp t ''bpp'');
          bpp = (if isFinite rawBpp \<and> jgt rawBpp (Fin 0) then rawBpp
                 else jmul bpc (formatFactor importedFormat));
          h = js_Number numstr (getProp t ''h'');
          v = js_Number numstr (getProp t ''v'');
          hz = js_Number numstr (getProp t ''hz'');
          hFront' = js_Number numstr (getProp t ''hFront'');
          hSync' = js_Number numstr (getProp t ''hSync'');
          hBack' = js_Number numstr (getProp t ''hBack'');
          vFront' = js_Number numstr (getProp t ''vFront'');
          vSync' = js_Number numstr (getProp t ''vSync'');
          vBack' = js_Number numstr (getProp t ''vBack'');
          hasTotals = list_all isFinite [h, v, hz, hFront', hSync', hBack', vFront', vSync', vBack'];
          rawPixelClock = js_Number numstr (getProp t ''pixelClock'');
          computedPixelClock =
            (if hasTotals
             then Some (pixelClockMHzFromTotals h v hz hFront' hSync' hBack' vFront' vSync' vBack')
             else None);
          pixelClock =
            (if isFinite rawPixelClock \<and> jgt rawPixelClock (Fin 0) then Some rawPixelClock
             else computedPixelClock)
      in \<lparr>t_id = truthy_or (getProp t ''id'') (JStr (show_nat now @ ''_'' @ show_nat i)),
          t_label = js_String numstr (nullish_or (getProp t ''label'')
                                        (JStr (''Timing '' @ show_nat (i + 1)))),
          t_peakBw = js_String numstr (nullish_or (getProp t ''peakBw'') (JStr [])),
          t_peakBwDsc = js_String numstr (nullish_or (getProp t ''peakBwDsc'') (JStr [])),
          t_useDsc = js_Boolean (getProp t ''useDsc''),
          t_calcOpen = Some (js_Boolean (getProp t ''calcOpen'')),
          t_modeIndex =
            Some (case getProp t ''modeIndex'' of Some (JNum n) \<Rightarrow> n | _ \<Rightarrow> Fin 0),
          t_cvtKind = Some (truthy_or (getProp t ''cvtKind'') (JStr ''cvt_rb2'')),
          t_h = finite_or_unset h, t_v = finite_or_unset v, t_hz = finite_or_unset hz,
          t_hFront = finite_or_unset hFront', t_hSync = finite_or_unset hSync',
          t_hBack = finite_or_unset hBack',
          t_vFront = finite_or_unset vFront', t_vSync = finite_or_unset vSync',
          t_vBack = finite_or_unset vBack',
          t_bpp = Some bpp,
          t_dscRatio = getProp t ''dscRatio'',
          t_bpc = Some bpc,
          t_colorFormat = Some importedFormat,
          t_pixelClock = pixelClock\<rparr>)"

definition restoreTimings ::
  "(jsnum \<Rightarrow> string) \<Rightarrow> nat \<Rightarrow> json list \<Rightarrow> TimingRow list option" where
  \<comment> \<open>\<open>j.timings.map(...).slice(0,4)\<close>; \<open>None\<close> when the callback throws on a \<open>null\<close> entry\<close>
  "restoreTimings numstr now ts =
     (if JNull \<in> set ts then None
      else Some (take 4 (map (\<lambda>(i, t). restoreRow numstr now i t) (enumerate 0 ts))))"

text \<open>
  The effect that follows a render in which \<open>presetId\<close> has changed: rate, coding and
  lanes are set from the preset.
\<close>

definition presetEffect :: "AppState \<Rightarrow> AppState \<Rightarrow> AppState" where
  "presetEffect before st =
     (if presetId st = presetId before then st
      else st\<lparr>rate := p_rate (presetOf (presetId st)),
              coding := p_coding (presetOf (presetId st)),
              lanes := p_lanes (presetOf (presetId st))\<rparr>)"

definition importTransport :: "(jsnum \<Rightarrow> string) \<Rightarrow> json \<Rightarrow> AppState \<Rightarrow> AppState" where
  \<comment> \<open>the body of \<open>if (j.transport) { ... }\<close>; \<open>rate\<close> in \<open>|| rate\<close> is the current state's\<close>
  "importTransport numstr tr st =
     (let importedLanes = js_Number numstr (getProp tr ''lanes'');
          laneOption = (if importedLanes \<in> set LANE_OPTIONS then importedLanes
                        else last LANE_OPTIONS)
      in st\<lparr>rate := jor (js_Number numstr (getProp tr ''rate'')) (rate st),
             lanes := laneOption,
             coding := (if getProp tr ''coding'' = Some (JStr ''8b10b'') then ''8b10b''
                        else ''128b/132b'')\<rparr>)"

text \<open>
  \<open>onImport\<close> on the content of the chosen file: \<open>None\<close> is a text that \<open>JSON.parse\<close>
  rejects (an empty file is read as \<open>{}\<close>). The result is whether the alert
  \<open>Invalid JSON file.\<close> was shown, and the state after the handler and the effect. The
  \<open>try\<close> block throws at \<open>j.timings\<close> when \<open>j\<close> is \<open>null\<close> and inside the \<open>map\<close> when an
  entry is \<open>null\<close>, both before the first state update.
\<close>

definition onImport ::
  "(jsnum \<Rightarrow> string) \<Rightarrow> nat \<Rightarrow> AppState \<Rightarrow> json option \<Rightarrow> bool \<times> AppState" where
  "onImport numstr now st payload =
     (case payload of
        None \<Rightarrow> (True, st)
      | Some j \<Rightarrow>
          if j = JNull then (True, st)
          else
            (case (case getProp j ''timings'' of
                     Some (JArr ts) \<Rightarrow> map_option Some (restoreTimings numstr now ts)
                   | _ \<Rightarrow> Some None) of
               None \<Rightarrow> (True, st)
             | Some restored \<Rightarrow>
                 (let st1 = (case restored of
                               None \<Rightarrow> st
                             | Some rs \<Rightarrow>
                                 st\<lparr>timings := (if rs \<noteq> [] then rs else [emptyTiming now 0])\<rparr>);
                      st2 = (case getProp j ''transport'' of
                               None \<Rightarrow> st1
                             | Some tr \<Rightarrow> if truthy tr then importTransport numstr tr st1 else st1);
                      st3 = (case getProp j ''presetId'' of
                               Some (JStr s) \<Rightarrow> st2\<lparr>presetId := s\<rparr>
                             | _ \<Rightarrow> st2)
                  in (False, presetEffect st st3))))"

section \<open>The other state changes\<close>




definition selectPreset :: "string \<Rightarrow> AppState \<Rightarrow> AppState" where
  "selectPreset pid st = presetEffect st (st\<lparr>presetId := pid\<rparr>)"


section \<open>The specification's wording of the generator, for comparison\<close>

text \<open>
  The definitions of this section follow the words of the specification, not the source;
  the theorems below compare them with \<open>calculateCvtTiming\<close>.
\<close>

definition spec_aspect_candidates :: "(nat \<times> nat) list" where
  "spec_aspect_candidates =
     [(4, 3), (16, 9), (16, 10), (5, 4), (15, 9), (43, 18), (64, 27), (12, 5)]"

definition spec_aspect_matches :: "jsnum \<Rightarrow> jsnum \<Rightarrow> nat \<times> nat \<Rightarrow> bool" where
  \<comment> \<open>\<open>round(active_v_lines * ratio / 8) * 8 == rounded_active_width\<close>\<close>
  "spec_aspect_matches active_v_lines rounded_active_width r =
     jeq (jmul (jround (jdiv (jmul active_v_lines (Fin (of_nat (fst r) / of_nat (snd r))))
                             (Fin 8)))
               (Fin 8))
         rounded_active_width"

definition spec_vsync_width :: "bool \<Rightarrow> jsnum \<Rightarrow> jsnum \<Rightarrow> jsnum" where
  \<comment> \<open>first match wins; no match is the Unknown bucket, of width 10\<close>
  "spec_vsync_width rb2 active_v_lines rounded_active_width =
     (if rb2 then Fin 8
      else
        (case find (spec_aspect_matches active_v_lines rounded_active_width)
                spec_aspect_candidates of
           None \<Rightarrow> Fin 10
         | Some r \<Rightarrow>
             if r = (4, 3) then Fin 4
             else if r = (16, 9) then Fin 5
             else if r = (16, 10) then Fin 6
             else if r = (5, 4) then Fin 7
             else if r = (15, 9) then Fin 7
             else Fin 10))"





section \<open>States and payloads of the examples\<close>

definition boundaryState :: AppState where
  "boundaryState =
     (initialState 0)\<lparr>timings :=
        [(emptyTiming 0 0)\<lparr>t_peakBwDsc := ''12.5''\<rparr>,
         (emptyTiming 0 1)\<lparr>t_peakBw := ''13.42'', t_useDsc := False\<rparr>]\<rparr>"







definition uhbr20State :: AppState where
  \<comment> \<open>the first state after the preset UHBR20 has been chosen\<close>
  "uhbr20State = selectPreset ''dp20_uhbr20'' (initialState 0)"

section \<open>Auxiliary notions for the proofs\<close>




text \<open>
  A row of the data model: the generator kind is a non-empty string, and a numeric field
  of the timing is a finite number or unset.
\<close>

definition finite_opt :: "jsnum option \<Rightarrow> bool" where
  "finite_opt x = (case x of None \<Rightarrow> True | Some n \<Rightarrow> isFinite n)"

definition row_wf :: "TimingRow \<Rightarrow> bool" where
  "row_wf t =
     ((case t_cvtKind t of Some (JStr k) \<Rightarrow> k \<noteq> [] | _ \<Rightarrow> False) \<and>
      list_all finite_opt
        [t_h t, t_v t, t_hz t, t_hFront t, t_hSync t, t_hBack t, t_vFront t, t_vSync t, t_vBack t])"

section \<open>Properties of the timing generator\<close>


lemma jround_of_int: "jround (Fin (of_int n)) = Fin (of_int n)"
proof -
  have "\<lfloor>(of_int n :: rat) + 1 / 2\<rfloor> = n" by linarith
  then show ?thesis by simp
qed


lemma cellGran_eq: "cellGran = Fin 8"
  by (simp add: cellGran_def CVT_CELL_GRAN_def)

lemma vSyncRounded_int: "\<exists>k::int. 0 < k \<and> vSyncRounded p a = Fin (of_int k)"
proof -
  have "vSyncRounded p a \<in> {Fin 4, Fin 5, Fin 6, Fin 7, Fin 8, Fin 10}"
    by (simp add: vSyncRounded_def)
  then consider "vSyncRounded p a = Fin (of_int 4)" | "vSyncRounded p a = Fin (of_int 5)"
    | "vSyncRounded p a = Fin (of_int 6)" | "vSyncRounded p a = Fin (of_int 7)"
    | "vSyncRounded p a = Fin (of_int 8)" | "vSyncRounded p a = Fin (of_int 10)" by auto
  then show ?thesis by cases (metis zero_less_numeral)+ 
qed



















lemma jmul_commute: "jmul a b = jmul b a"
  by (cases a; cases b) (simp_all add: mult.commute)

lemma jround_vSyncRounded: "jround (vSyncRounded p a) = vSyncRounded p a"
proof -
  obtain k :: int where "vSyncRounded p a = Fin (of_int k)" using vSyncRounded_int by blast
  then show ?thesis by (simp only: jround_of_int)
qed

lemma vSyncRounded_spec:
  "vSyncRounded p (aspectRatio lines width) = spec_vsync_width (p = cvt_rb2) lines width"
  by (simp add: vSyncRounded_def aspectRatio_def spec_vsync_width_def spec_aspect_matches_def
      spec_aspect_candidates_def aspectCandidates_def cellGran_eq jmul_commute [of "Fin 8"])

text \<open>
  Claim C7 (vertical sync width). For every input of the generator, whatever the numbers
  and the flags, the vertical sync width of the result is 8 for the profile \<open>cvt_rb2\<close>;
  otherwise it is decided by the first ratio of the ordered list 4:3, 16:9, 16:10, 5:4,
  15:9, 43:18, 64:27, 12:5 for which \<open>round(active lines * ratio / 8) * 8\<close> equals the
  rounded active width, and is 4, 5, 6, 7, 7 for the first five ratios and 10 for the
  other three and for no match. The function is total, so no input is an error.
\<close>

theorem vsync_width_selection:
  "vSync (calculateCvtTiming hActive vActive refreshHz p margins interlaced videoOptimized) =
     spec_vsync_width (p = cvt_rb2)
       (if interlaced then jmul (Fin 2) (jfloor (jdiv vActive (Fin 2))) else jfloor vActive)
       (jmul (jfloor (jdiv hActive (Fin 8))) (Fin 8))"
proof -
  have "vSync (calculateCvtTiming hActive vActive refreshHz p margins interlaced videoOptimized) =
      jround (vSyncRounded p (aspectRatio
         (if interlaced then jmul (Fin 2) (vLinesRounded interlaced vActive)
          else vLinesRounded interlaced vActive) (hPixelsRounded hActive)))"
    unfolding calculateCvtTiming_def Let_def
    by (cases "p = cvt") (simp_all only: CvtTimingResult.select_convs if_True if_False simp_thms)
  also have "\<dots> = spec_vsync_width (p = cvt_rb2)
      (if interlaced then jmul (Fin 2) (vLinesRounded interlaced vActive)
          else vLinesRounded interlaced vActive) (hPixelsRounded hActive)"
    by (simp only: jround_vSyncRounded) (simp only: vSyncRounded_spec)
  finally show ?thesis
    by (simp add: vLinesRounded_def hPixelsRounded_def cellGran_eq)
qed














lemma jmul_one: "jmul x (Fin 1) = x"
  by (cases x) simp_all



section \<open>Properties of the aggregate report\<close>

lemmas str_eval = StringToNumber_def trim_def is_ws_def unsigned_decimal_def is_digit_def
  radix_literal_def digit_val_def exponent_part_def pow10_def Let_def

lemmas rate_eval = selected_def peak_def peakDsc_def jor_def emptyTiming_def


lemma totalGbps_foldl: "totalGbps st = foldl jadd (Fin 0) (map selected (timings st))"
  by (simp add: totalGbps_def foldl_map)

lemma foldl_jadd_Fin: "foldl jadd (Fin a) (map Fin rs) = Fin (a + sum_list rs)"
  by (induction rs arbitrary: a) (simp_all add: add.assoc)

lemma jle_Fin: "jle (Fin a) (Fin b) = (a \<le> b)"
  by (auto simp: jle_def)




text \<open>
  Claim C1 (fit decision). \<open>fits\<close> compares the total of the selected rates, summed from
  the left starting at 0, with the payload capacity plus \<open>1e-9\<close>, under the language's
  \<open>+\<close> and \<open><=\<close>. When the selected rates and the capacity are finite numbers, that is:
  \<open>fits\<close> holds exactly when the sum of the selected rates is at most the capacity plus
  \<open>1e-9\<close>; so a total equal to the capacity fits.
\<close>

theorem fit_decision:
  "fits st = jle (foldl jadd (Fin 0) (map selected (timings st)))
                 (jadd (payloadCapacityGbps st) (Fin (1 / 1000000000))) \<and>
   (map selected (timings st) = map Fin rs \<and> payloadCapacityGbps st = Fin c \<longrightarrow>
      fits st = (sum_list rs \<le> c + 1 / 1000000000))"
proof (intro conjI impI)
  show g: "fits st = jle (foldl jadd (Fin 0) (map selected (timings st)))
                 (jadd (payloadCapacityGbps st) (Fin (1 / 1000000000)))"
    by (simp only: fits_def totalGbps_foldl)
  assume "map selected (timings st) = map Fin rs \<and> payloadCapacityGbps st = Fin c"
  then show "fits st = (sum_list rs \<le> c + 1 / 1000000000)"
    unfolding g by (simp add: foldl_jadd_Fin jle_Fin)
qed

lemma boundaryState_selected: "map selected (timings boundaryState) = map Fin [25 / 2, 671 / 50]"
  by (simp add: boundaryState_def rate_eval str_eval)

lemma boundaryState_capacity: "payloadCapacityGbps boundaryState = Fin (648 / 25)"
  by (simp add: boundaryState_def payloadCapacityGbps_def rawCapacityGbps_def eff_def
      codingEfficiency_def initialState_def presetOf_def DP_PRESETS_def)

theorem fit_decision_witness:
  "map selected (timings boundaryState) = map Fin [25 / 2, 671 / 50] \<and>
   payloadCapacityGbps boundaryState = Fin (648 / 25) \<and>
   sum_list [25 / 2, 671 / 50] = (648 / 25 :: rat) \<and>
   fits boundaryState"
  using fit_decision [of boundaryState "[25 / 2, 671 / 50]" "648 / 25"]
    boundaryState_selected boundaryState_capacity
  by (simp add: jle_Fin)






section \<open>Properties of the import and the export\<close>

lemma presetEffect_same [simp]: "presetEffect st st = st"
  by (simp add: presetEffect_def)














lemma restoreRow_numeric:
  "t_h (restoreRow numstr now i t) = finite_or_unset (js_Number numstr (getProp t ''h''))"
  "t_v (restoreRow numstr now i t) = finite_or_unset (js_Number numstr (getProp t ''v''))"
  "t_hz (restoreRow numstr now i t) = finite_or_unset (js_Number numstr (getProp t ''hz''))"
  "t_hFront (restoreRow numstr now i t) = finite_or_unset (js_Number numstr (getProp t ''hFront''))"
  "t_hSync (restoreRow numstr now i t) = finite_or_unset (js_Number numstr (getProp t ''hSync''))"
  "t_hBack (restoreRow numstr now i t) = finite_or_unset (js_Number numstr (getProp t ''hBack''))"
  "t_vFront (restoreRow numstr now i t) = finite_or_unset (js_Number numstr (getProp t ''vFront''))"
  "t_vSync (restoreRow numstr now i t) = finite_or_unset (js_Number numstr (getProp t ''vSync''))"
  "t_vBack (restoreRow numstr now i t) = finite_or_unset (js_Number numstr (getProp t ''vBack''))"
  by (simp_all add: restoreRow_def Let_def)








lemma importTransport_timings: "timings (importTransport numstr tr st) = timings st"
  by (simp add: importTransport_def Let_def)









lemma timings_presetEffect: "timings (presetEffect a b) = timings b"
  by (simp add: presetEffect_def)






lemma map_of_num_entry:
  "map_of (num_entry k x @ rest) k' =
     (if k = k' then (case x of None \<Rightarrow> map_of rest k' | Some n \<Rightarrow> Some (stringified (JNum n)))
      else map_of rest k')"
  by (cases x) (simp_all add: num_entry_def)

lemma map_of_val_entry:
  "map_of (val_entry k x @ rest) k' =
     (if k = k' then (case x of None \<Rightarrow> map_of rest k' | Some v \<Rightarrow> Some (stringified v))
      else map_of rest k')"
  by (cases x) (simp_all add: val_entry_def)

lemma map_of_num_entry_last:
  "map_of (num_entry k x) k' =
     (if k = k' then (case x of None \<Rightarrow> None | Some n \<Rightarrow> Some (stringified (JNum n))) else None)"
  by (cases x) (simp_all add: num_entry_def)

lemmas exported_lookup = exportRow_def map_of_num_entry map_of_val_entry map_of_num_entry_last

lemma exportRow_strings:
  "getProp (exportRow t) ''peakBw'' = Some (JStr (t_peakBw t))"
  "getProp (exportRow t) ''peakBwDsc'' = Some (JStr (t_peakBwDsc t))"
  "getProp (exportRow t) ''useDsc'' = Some (JBool (t_useDsc t))"
  by (simp_all add: exportRow_def)

lemma exportRow_cvtKind:
  "getProp (exportRow t) ''cvtKind'' = map_option stringified (t_cvtKind t)"
  by (cases "t_cvtKind t") (simp_all add: exported_lookup del: map_of_append)

lemma exportRow_numbers:
  "getProp (exportRow t) ''h'' = map_option (\<lambda>n. stringified (JNum n)) (t_h t)"
  "getProp (exportRow t) ''v'' = map_option (\<lambda>n. stringified (JNum n)) (t_v t)"
  "getProp (exportRow t) ''hz'' = map_option (\<lambda>n. stringified (JNum n)) (t_hz t)"
  "getProp (exportRow t) ''hFront'' = map_option (\<lambda>n. stringified (JNum n)) (t_hFront t)"
  "getProp (exportRow t) ''hSync'' = map_option (\<lambda>n. stringified (JNum n)) (t_hSync t)"
  "getProp (exportRow t) ''hBack'' = map_option (\<lambda>n. stringified (JNum n)) (t_hBack t)"
  "getProp (exportRow t) ''vFront'' = map_option (\<lambda>n. stringified (JNum n)) (t_vFront t)"
  "getProp (exportRow t) ''vSync'' = map_option (\<lambda>n. stringified (JNum n)) (t_vSync t)"
  "getProp (exportRow t) ''vBack'' = map_option (\<lambda>n. stringified (JNum n)) (t_vBack t)"
  by (simp_all add: exported_lookup del: map_of_append split: option.splits)

lemma finite_round_trip:
  assumes "finite_opt x"
  shows "finite_or_unset (js_Number numstr (map_option (\<lambda>n. stringified (JNum n)) x)) = x"
proof (cases x)
  case None
  then show ?thesis by (simp add: js_Number_def finite_or_unset_def)
next
  case (Some n)
  then have "isFinite n" using assms by (simp add: finite_opt_def)
  then show ?thesis using Some by (simp add: js_Number_def finite_or_unset_def)
qed

lemma round_trip_row:
  assumes "row_wf t"
  shows "t_cvtKind (restoreRow numstr now i (exportRow t)) = t_cvtKind t"
    and "t_h (restoreRow numstr now i (exportRow t)) = t_h t"
    and "t_v (restoreRow numstr now i (exportRow t)) = t_v t"
    and "t_hz (restoreRow numstr now i (exportRow t)) = t_hz t"
    and "t_hFront (restoreRow numstr now i (exportRow t)) = t_hFront t"
    and "t_hSync (restoreRow numstr now i (exportRow t)) = t_hSync t"
    and "t_hBack (restoreRow numstr now i (exportRow t)) = t_hBack t"
    and "t_vFront (restoreRow numstr now i (exportRow t)) = t_vFront t"
    and "t_vSync (restoreRow numstr now i (exportRow t)) = t_vSync t"
    and "t_vBack (restoreRow numstr now i (exportRow t)) = t_vBack t"
    and "t_peakBw (restoreRow numstr now i (exportRow t)) = t_peakBw t"
    and "t_peakBwDsc (restoreRow numstr now i (exportRow t)) = t_peakBwDsc t"
    and "t_useDsc (restoreRow numstr now i (exportRow t)) = t_useDsc t"
proof -
  obtain k where k: "t_cvtKind t = Some (JStr k)" "k \<noteq> []"
    using assms by (auto simp: row_wf_def split: option.splits json.splits)
  show "t_cvtKind (restoreRow numstr now i (exportRow t)) = t_cvtKind t"
    by (simp add: restoreRow_def Let_def exportRow_cvtKind k truthy_or_def)
  have f: "finite_opt (t_h t)" "finite_opt (t_v t)" "finite_opt (t_hz t)"
    "finite_opt (t_hFront t)" "finite_opt (t_hSync t)" "finite_opt (t_hBack t)"
    "finite_opt (t_vFront t)" "finite_opt (t_vSync t)" "finite_opt (t_vBack t)"
    using assms by (simp_all add: row_wf_def)
  show "t_h (restoreRow numstr now i (exportRow t)) = t_h t"
    "t_v (restoreRow numstr now i (exportRow t)) = t_v t"
    "t_hz (restoreRow numstr now i (exportRow t)) = t_hz t"
    "t_hFront (restoreRow numstr now i (exportRow t)) = t_hFront t"
    "t_hSync (restoreRow numstr now i (exportRow t)) = t_hSync t"
    "t_hBack (restoreRow numstr now i (exportRow t)) = t_hBack t"
    "t_vFront (restoreRow numstr now i (exportRow t)) = t_vFront t"
    "t_vSync (restoreRow numstr now i (exportRow t)) = t_vSync t"
    "t_vBack (restoreRow numstr now i (exportRow t)) = t_vBack t"
    by (simp_all only: restoreRow_numeric exportRow_numbers finite_round_trip f)
  show "t_peakBw (restoreRow numstr now i (exportRow t)) = t_peakBw t"
    "t_peakBwDsc (restoreRow numstr now i (exportRow t)) = t_peakBwDsc t"
    "t_useDsc (restoreRow numstr now i (exportRow t)) = t_useDsc t"
    by (simp_all add: restoreRow_def Let_def exportRow_strings nullish_or_def js_Boolean_def)
qed

lemma exportRow_not_null: "JNull \<notin> set (map exportRow ts)"
  by (auto simp: exportRow_def)

lemma exportJson_sections:
  "exportJson st \<noteq> JNull"
  "getProp (exportJson st) ''timings'' = Some (JArr (map exportRow (timings st)))"
  "getProp (exportJson st) ''transport'' =
     Some (JObj [(''rate'', stringified (JNum (rate st))),
                 (''lanes'', stringified (JNum (lanes st))),
                 (''coding'', JStr (coding st)),
                 (''eff'', stringified (JNum (eff st)))])"
  "getProp (exportJson st) ''presetId'' = Some (JStr (presetId st))"
  by (simp_all add: exportJson_def)

lemma coding_importTransport:
  "coding (importTransport numstr tr st) =
     (if getProp tr ''coding'' = Some (JStr ''8b10b'') then ''8b10b'' else ''128b/132b'')"
  by (simp add: importTransport_def Let_def)

lemma presetId_importTransport: "presetId (importTransport numstr tr st) = presetId st"
  by (simp add: importTransport_def Let_def)

lemma onImport_exported:
  "fst (onImport numstr now st (Some (exportJson st))) = False"
  "coding (snd (onImport numstr now st (Some (exportJson st)))) =
     (if coding st = ''8b10b'' then ''8b10b'' else ''128b/132b'')"
  "timings (snd (onImport numstr now st (Some (exportJson st)))) =
     (if timings st = [] then [emptyTiming now 0]
      else take 4 (map (\<lambda>(i, t). restoreRow numstr now i t)
                    (enumerate 0 (map exportRow (timings st)))))"
proof -
  have r: "restoreTimings numstr now (map exportRow (timings st)) =
      Some (take 4 (map (\<lambda>(i, t). restoreRow numstr now i t)
                    (enumerate 0 (map exportRow (timings st)))))"
    by (simp only: restoreTimings_def exportRow_not_null if_False)
  have e: "take 4 (map (\<lambda>(i, t). restoreRow numstr now i t)
                    (enumerate 0 (map exportRow (timings st)))) = [] \<longleftrightarrow> timings st = []"
    by (cases "timings st") simp_all
  show "fst (onImport numstr now st (Some (exportJson st))) = False"
    by (simp add: onImport_def exportJson_sections r Let_def)
  show "coding (snd (onImport numstr now st (Some (exportJson st)))) =
     (if coding st = ''8b10b'' then ''8b10b'' else ''128b/132b'')"
    by (simp add: onImport_def exportJson_sections r Let_def presetEffect_def
        coding_importTransport presetId_importTransport)
  show "timings (snd (onImport numstr now st (Some (exportJson st)))) =
     (if timings st = [] then [emptyTiming now 0]
      else take 4 (map (\<lambda>(i, t). restoreRow numstr now i t)
                    (enumerate 0 (map exportRow (timings st)))))"
    using e
    by (simp add: onImport_def exportJson_sections r Let_def timings_presetEffect
        importTransport_timings)
qed

lemma round_trip_rows:
  assumes "length (timings st) \<le> 4" "k < length (timings st)"
  shows "timings (snd (onImport numstr now st (Some (exportJson st)))) ! k =
         restoreRow numstr now k (exportRow (timings st ! k))"
proof -
  have ne: "timings st \<noteq> []" using assms(2) by auto
  have "take 4 (map (\<lambda>(i, t). restoreRow numstr now i t)
                    (enumerate 0 (map exportRow (timings st)))) ! k =
        restoreRow numstr now k (exportRow (timings st ! k))"
    using assms by (simp add: nth_enumerate_eq)
  then show ?thesis using ne by (simp add: onImport_exported(3))
qed

text \<open>
  Claim C4 (round trip). The timing part of the claim holds: exporting a state and
  importing the file again gives back, for every row of the data model, the
  generator kind, the active resolution and refresh rate, the six blanking fields and
  the selected rates (lemmas \<open>round_trip_rows\<close> and \<open>round_trip_row\<close>). The coding
  of the transport does not come back: the import stores \<open>128b/132b\<close>, with a slash,
  for every exported coding other than \<open>8b10b\<close>, while the type \<open>Coding\<close>, the presets
  and the selector of the source write \<open>128b132b\<close>. The theorem evaluates the export and
  the import at the state after the preset UHBR20 has been chosen.
\<close>

theorem coding_round_trip_failing_input:
  "coding uhbr20State = ''128b132b'' \<and>
   fst (onImport wholeNumberString 0 uhbr20State (Some (exportJson uhbr20State))) = False \<and>
   coding (snd (onImport wholeNumberString 0 uhbr20State (Some (exportJson uhbr20State)))) =
     ''128b/132b''"
proof -
  have c: "coding uhbr20State = ''128b132b''"
    by (simp add: uhbr20State_def selectPreset_def presetEffect_def initialState_def
        presetOf_def DP_PRESETS_def)
  show ?thesis by (simp add: c onImport_exported)
qed

end
